theory Spec2Isabelle
  imports Main "HOL-Library.Sublist" "HOL-Library.Word"
begin

section \<open>The ad generation workflow of \<open>src/index.tsx\<close>\<close>

text \<open>
  The component \<open>App\<close> keeps nine pieces of state and one asynchronous operation,
  \<open>generateAd\<close>.  The embedding keeps the state as a record, the operation as a function
  from the state before the click to the state after the returned promise has settled,
  and the two things the operation awaits (the \<open>FileReader\<close> and the image service) as
  values the function receives: what the reader delivers is a field of the file, the
  service is a function from the request to what the call throws or returns.

  In the state, the instruction text and the messages a JavaScript string is a
  \<^typ>\<open>string\<close>: the code there joins strings and tests them for emptiness, and never
  looks at a character of the title or the description.  The download name is the one
  place that does, with \<open>\s\<close> and \<open>toLowerCase\<close>; there a string is the list of its UTF-16
  code units, each a 16-bit word, so that every title is covered.
\<close>

subsection \<open>Platform options\<close>

text \<open>
  The entries of \<open>PLATFORMS\<close>, lines 6 to 10.  The field \<open>id\<close> is \<open>pid\<close> here, and
  further down \<open>file.type\<close> is \<open>ftype\<close> and \<open>part.text\<close> is \<open>text_p\<close>: the source's
  names are taken by the logic or by the theory language.
\<close>

record platform =
  pid :: string
  name :: string
  ratio :: string
  icon :: string

definition PLATFORMS :: "platform list" where
  "PLATFORMS =
    [\<lparr>pid = ''story'', name = ''Instagram/Facebook Story'', ratio = ''9:16'',
       icon = ''fa-instagram''\<rparr>,
     \<lparr>pid = ''feed'', name = ''Social Media Feed'', ratio = ''1:1'',
       icon = ''fa-square-share-nodes''\<rparr>,
     \<lparr>pid = ''landscape'', name = ''Google Display / Web'', ratio = ''16:9'',
       icon = ''fa-google''\<rparr>]"

subsection \<open>The instruction text\<close>

text \<open>
  The template literal of lines 73 to 86, line by line.  Every line but the first starts
  with the six blanks of the source's indentation, the first ends in a blank, and the
  lines are separated by a line feed.
\<close>

definition LF :: string where
  "LF = [CHR 0x0A]"

definition DQ :: string where
  "DQ = [CHR 0x22]"

definition prompt :: "platform \<Rightarrow> string \<Rightarrow> string \<Rightarrow> string" where
  "prompt platform title description =
     ''Create a stunning, high-quality static advertisement image optimized for ''
       @ name platform @ ''. '' @ LF
     @ ''      '' @ LF
     @ ''      Subject:'' @ LF
     @ ''      The centerpiece is the provided book cover for a book titled '' @ DQ
       @ title @ DQ @ ''.'' @ LF
     @ ''      '' @ LF
     @ ''      Context & Vibe:'' @ LF
     @ ''      ''
       @ (if description \<noteq> []
          then ''The ad should convey this message/vibe: '' @ description @ ''.''
          else ''The vibe should be serene, professional, and inspiring, suitable for a high-quality journal or planner.'')
       @ LF
     @ ''      '' @ LF
     @ ''      Composition:'' @ LF
     @ ''      - Place the book naturally in a lifestyle setting (e.g., on a minimalist wooden desk with coffee, in a cozy reading nook, or held by a person in a soft-focus background).'' @ LF
     @ ''      - The lighting should be soft, golden-hour, or studio quality.'' @ LF
     @ ''      - Make it look like a premium social media ad for the brand '' @ [CHR 0x27]
       @ ''Innerflue'' @ [CHR 0x27] @ ''.'' @ LF
     @ ''      - Do not add text overlays, just the visual photography.'' @ LF
     @ ''      - Ensure the book cover provided is clearly visible and integrated realistically (lighting, shadows, perspective).''"

subsection \<open>Files, requests and replies\<close>

text \<open>
  A \<open>File\<close> as the workflow sees it: its media type, and what a \<open>FileReader\<close> delivers
  for \<open>readAsDataURL\<close>, the data URL on success and nothing when \<open>reader.onerror\<close> fires.
\<close>

record js_file =
  ftype :: string
  readAsDataURL :: "string option"

text \<open>
  \<open>Blob\<close> and \<open>Part\<close> of the service's interface; every field is optional there.  The same
  shape is used for the parts of the request and of the reply.
\<close>

record blob =
  data :: "string option"
  mimeType :: "string option"

record part =
  text_p :: "string option"
  inlineData :: "blob option"

record request =
  model :: string
  contents :: "part list"
  aspectRatio :: string

record content =
  parts :: "part list option"

record candidate =
  content :: "content option"

record response =
  candidates :: "candidate list option"

text \<open>A thrown or rejected value, reduced to what the handler reads: \<open>err.message\<close>.\<close>

datatype thrown = Thrown (message: "string option")

subsection \<open>State of the component\<close>

record app_state =
  apiKey :: string
  title :: string
  description :: string
  platform :: platform
  imageFile :: "js_file option"
  imagePreview :: "string option"
  generatedImage :: "string option"
  loading :: bool
  error :: string

text \<open>The initial state; the argument is \<open>process.env.API_KEY || ""\<close>.\<close>

definition initial :: "string \<Rightarrow> app_state" where
  "initial key =
     \<lparr>apiKey = key, title = [], description = [], platform = hd PLATFORMS,
      imageFile = None, imagePreview = None, generatedImage = None,
      loading = False, error = []\<rparr>"

definition setTitle :: "string \<Rightarrow> app_state \<Rightarrow> app_state" where
  "setTitle v s = s\<lparr>title := v\<rparr>"

definition setDescription :: "string \<Rightarrow> app_state \<Rightarrow> app_state" where
  "setDescription v s = s\<lparr>description := v\<rparr>"

definition setPlatform :: "platform \<Rightarrow> app_state \<Rightarrow> app_state" where
  "setPlatform v s = s\<lparr>platform := v\<rparr>"

definition setGeneratedImage :: "string option \<Rightarrow> app_state \<Rightarrow> app_state" where
  "setGeneratedImage v s = s\<lparr>generatedImage := v\<rparr>"

definition setLoading :: "bool \<Rightarrow> app_state \<Rightarrow> app_state" where
  "setLoading v s = s\<lparr>loading := v\<rparr>"

definition setError :: "string \<Rightarrow> app_state \<Rightarrow> app_state" where
  "setError v s = s\<lparr>error := v\<rparr>"

text \<open>\<open>handleImageUpload\<close>: nothing changes when the chooser delivers no file.\<close>

definition handleImageUpload :: "js_file option \<Rightarrow> app_state \<Rightarrow> app_state" where
  "handleImageUpload chosen s =
     (case chosen of
        None \<Rightarrow> s
      | Some f \<Rightarrow> s\<lparr>imageFile := Some f, imagePreview := readAsDataURL f\<rparr>)"

text \<open>The Reset button of lines 314 to 320.\<close>

definition reset :: "app_state \<Rightarrow> app_state" where
  "reset s = setGeneratedImage None s"

subsection \<open>Encoding the cover\<close>

text \<open>\<open>result.split(",")\<close> and the read of index 1, which is \<open>undefined\<close> out of range.\<close>

fun split_comma :: "string \<Rightarrow> string list" where
  "split_comma [] = [[]]"
| "split_comma (c # cs) =
     (if c = CHR '','' then [] # split_comma cs
      else (case split_comma cs of
              [] \<Rightarrow> [[c]]
            | w # ws \<Rightarrow> (c # w) # ws))"

fun index1 :: "'a list \<Rightarrow> 'a option" where
  "index1 (_ # x # _) = Some x"
| "index1 _ = None"

text \<open>
  \<open>fileToGenerativePart\<close>.  The promise is rejected with the reader's error event, an
  object without a \<open>message\<close>.
\<close>

definition fileToGenerativePart :: "js_file \<Rightarrow> thrown + part" where
  "fileToGenerativePart f =
     (case readAsDataURL f of
        None \<Rightarrow> Inl (Thrown None)
      | Some result \<Rightarrow>
          Inr \<lparr>text_p = None,
               inlineData = Some \<lparr>data = index1 (split_comma result),
                                  mimeType = Some (ftype f)\<rparr>\<rparr>)"

subsection \<open>Reading the reply\<close>

text \<open>\<open>response.candidates?.[0]?.content?.parts\<close>\<close>

definition response_parts :: "response \<Rightarrow> part list option" where
  "response_parts r =
     (case candidates r of
        None \<Rightarrow> None
      | Some [] \<Rightarrow> None
      | Some (c # _) \<Rightarrow>
          (case content c of
             None \<Rightarrow> None
           | Some ct \<Rightarrow> parts ct))"

text \<open>A value interpolated into a template literal; \<open>undefined\<close> prints as its name.\<close>

definition interpolate :: "string option \<Rightarrow> string" where
  "interpolate v = (case v of None \<Rightarrow> ''undefined'' | Some x \<Rightarrow> x)"

text \<open>
  The loop of lines 106 to 113 with its \<open>break\<close>; the second component is
  \<open>foundImage\<close>, which is false when the loop is entered.
\<close>

fun scan_parts :: "part list \<Rightarrow> app_state \<Rightarrow> app_state \<times> bool" where
  "scan_parts [] s = (s, False)"
| "scan_parts (p # ps) s =
     (case inlineData p of
        Some b \<Rightarrow>
          (setGeneratedImage (Some (''data:image/png;base64,'' @ interpolate (data b))) s,
           True)
      | None \<Rightarrow> scan_parts ps s)"

definition extract_image :: "response \<Rightarrow> app_state \<Rightarrow> app_state \<times> bool" where
  "extract_image r s =
     (case response_parts r of
        None \<Rightarrow> (s, False)
      | Some ps \<Rightarrow> scan_parts ps s)"

subsection \<open>The generation attempt\<close>

text \<open>Lines 64 to 66: the state while the attempt is under way.\<close>

definition start_attempt :: "app_state \<Rightarrow> app_state" where
  "start_attempt s = setGeneratedImage None (setError [] (setLoading True s))"

text \<open>
  The body of the \<open>try\<close>: the value thrown, if any, the state when the block is left,
  and the requests sent to the service.  Constructing the client does not throw.
\<close>

definition try_block ::
  "(request \<Rightarrow> thrown + response) \<Rightarrow> js_file \<Rightarrow> app_state
     \<Rightarrow> thrown option \<times> app_state \<times> request list" where
  "try_block generateContent f s =
     (case fileToGenerativePart f of
        Inl err \<Rightarrow> (Some err, s, [])
      | Inr imagePart \<Rightarrow>
          (let req = \<lparr>model = ''gemini-2.5-flash-image'',
                      contents =
                        [imagePart,
                         \<lparr>text_p = Some (prompt (platform s) (title s) (description s)),
                          inlineData = None\<rparr>],
                      aspectRatio = ratio (platform s)\<rparr>
           in (case generateContent req of
                 Inl err \<Rightarrow> (Some err, s, [req])
               | Inr r \<Rightarrow>
                   (case extract_image r s of
                      (s', foundImage) \<Rightarrow>
                        if \<not> foundImage
                        then (Some (Thrown (Some ''No image generated. The model might have returned text instead.'')),
                              s', [req])
                        else (None, s', [req])))))"

text \<open>\<open>err.message || "Failed to generate ad. Please try again."\<close>\<close>

definition catch_message :: "thrown \<Rightarrow> string" where
  "catch_message err =
     (case message err of
        None \<Rightarrow> ''Failed to generate ad. Please try again.''
      | Some m \<Rightarrow> if m \<noteq> [] then m else ''Failed to generate ad. Please try again.'')"

text \<open>
  \<open>generateAd\<close>, lines 54 to 126: the state once the promise it returns has settled, and
  the requests the service has received on the way.  The guard \<open>!imageFile || !title\<close>
  is the first two branches; \<open>!title\<close> and \<open>!apiKey\<close> hold of the empty string only.
  The handler's \<open>console.error\<close> leaves the state alone and is left out.
\<close>

definition generateAd ::
  "(request \<Rightarrow> thrown + response) \<Rightarrow> app_state \<Rightarrow> app_state \<times> request list" where
  "generateAd generateContent s =
     (case imageFile s of
        None \<Rightarrow> (setError ''Please provide a book cover and a title.'' s, [])
      | Some f \<Rightarrow>
          if title s = [] then (setError ''Please provide a book cover and a title.'' s, [])
          else if apiKey s = [] then (setError ''API Key is missing.'' s, [])
          else
            (case try_block generateContent f (start_attempt s) of
               (None, s', calls) \<Rightarrow> (setLoading False s', calls)
             | (Some err, s', calls) \<Rightarrow>
                 (setLoading False (setError (catch_message err) s'), calls)))"

subsection \<open>The download name\<close>

text \<open>
  Line 308.  A string is the list of its UTF-16 code units here; \<open>js\<close> gives the code
  units of a literal of the source.
\<close>

type_synonym code_unit = "16 word"

definition js :: "string \<Rightarrow> code_unit list" where
  "js s = map of_char s"

text \<open>
  The class \<open>\s\<close> of a pattern without the \<open>u\<close> flag, on code units: the white space and
  line terminator code points of ECMAScript, all of them in the basic plane.
\<close>

definition is_space :: "code_unit \<Rightarrow> bool" where
  "is_space u \<longleftrightarrow>
     (0x0009 \<le> u \<and> u \<le> 0x000D) \<or> u = 0x0020 \<or> u = 0x00A0 \<or> u = 0x1680
     \<or> (0x2000 \<le> u \<and> u \<le> 0x200A) \<or> u = 0x2028 \<or> u = 0x2029 \<or> u = 0x202F
     \<or> u = 0x205F \<or> u = 0x3000 \<or> u = 0xFEFF"

text \<open>\<open>replace(/\s+/g, '-')\<close>: every maximal run of white space becomes one hyphen.\<close>

function replace_spaces :: "code_unit list \<Rightarrow> code_unit list" where
  "replace_spaces [] = []"
| "replace_spaces (u # us) =
     (if is_space u then 0x002D # replace_spaces (dropWhile is_space us)
      else u # replace_spaces us)"
  by pat_completeness auto
termination
  by (relation "measure length") (auto simp: length_dropWhile_le less_Suc_eq_le)

text \<open>
  The value of the \<open>download\<close> attribute.  \<open>String.prototype.toLowerCase\<close> is a function of
  the JavaScript runtime, with the case tables of the runtime's Unicode version, and not
  code of the repository: it is an argument.
\<close>

definition download ::
  "(code_unit list \<Rightarrow> code_unit list) \<Rightarrow> code_unit list \<Rightarrow> code_unit list" where
  "download toLowerCase t = js ''innerflue-ad-'' @ toLowerCase (replace_spaces t) @ js ''.png''"

text \<open>
  What is taken for granted of \<open>toLowerCase\<close>: on a string of ASCII code units it moves
  the letters A to Z to a to z and keeps every other unit, in every version of the
  case tables.
\<close>

definition is_ascii :: "code_unit \<Rightarrow> bool" where
  "is_ascii u \<longleftrightarrow> u < 0x0080"

definition ascii_lower :: "code_unit \<Rightarrow> code_unit" where
  "ascii_lower u = (if 0x0041 \<le> u \<and> u \<le> 0x005A then u + 0x0020 else u)"

text \<open>
  The name as section 6 of the specification words it.  White space is the list of
  the twenty-five white space code units, written out; \<open>hyphenated_spec\<close> reads the
  title from left to right and puts one hyphen for each run of white space, \<open>prev\<close>
  telling whether the unit before was white space.
\<close>

definition white_space :: "code_unit list" where
  "white_space =
     [0x0009, 0x000A, 0x000B, 0x000C, 0x000D, 0x0020, 0x00A0, 0x1680,
      0x2000, 0x2001, 0x2002, 0x2003, 0x2004, 0x2005, 0x2006, 0x2007, 0x2008, 0x2009, 0x200A,
      0x2028, 0x2029, 0x202F, 0x205F, 0x3000, 0xFEFF]"

fun hyphenated_spec :: "bool \<Rightarrow> code_unit list \<Rightarrow> code_unit list" where
  "hyphenated_spec prev [] = []"
| "hyphenated_spec prev (u # us) =
     (if u \<in> set white_space
      then (if prev then [] else js ''-'') @ hyphenated_spec True us
      else u # hyphenated_spec False us)"

subsection \<open>Concrete inputs\<close>

text \<open>
  A cover, two replies of the service, and a run of the component: a cover and a title
  are entered, an advertisement is generated, and the title field is emptied again.
\<close>

definition cover :: js_file where
  "cover = \<lparr>ftype = ''image/png'', readAsDataURL = Some ''data:image/png;base64,iVBORw0KGgo=''\<rparr>"

definition reply_image :: response where
  "reply_image =
     \<lparr>candidates = Some
        [\<lparr>content = Some
            \<lparr>parts = Some
               [\<lparr>text_p = Some ''Here is your ad.'', inlineData = None\<rparr>,
                \<lparr>text_p = None,
                 inlineData = Some \<lparr>data = Some ''QUJD'', mimeType = Some ''image/png''\<rparr>\<rparr>,
                \<lparr>text_p = None,
                 inlineData = Some \<lparr>data = Some ''WFla'', mimeType = Some ''image/png''\<rparr>\<rparr>]\<rparr>\<rparr>]\<rparr>"

definition reply_text :: response where
  "reply_text =
     \<lparr>candidates = Some
        [\<lparr>content = Some
            \<lparr>parts = Some [\<lparr>text_p = Some ''I cannot create this image.'', inlineData = None\<rparr>]\<rparr>\<rparr>]\<rparr>"

definition service_image :: "request \<Rightarrow> thrown + response" where
  "service_image req = Inr reply_image"

definition service_down :: "request \<Rightarrow> thrown + response" where
  "service_down req = Inl (Thrown (Some ''Network request failed''))"

definition ready :: app_state where
  "ready = setTitle ''The Mindfulness Journal'' (handleImageUpload (Some cover) (initial ''key''))"

definition shown :: app_state where
  "shown = fst (generateAd service_image ready)"

definition retitled :: app_state where
  "retitled = setTitle [] shown"

text \<open>A second session with another cover and another key, and the same title.\<close>

definition other_cover :: js_file where
  "other_cover = \<lparr>ftype = ''image/jpeg'', readAsDataURL = Some ''data:image/jpeg;base64,/9j/4AAQ''\<rparr>"

definition other_ready :: app_state where
  "other_ready =
     setTitle ''The Mindfulness Journal'' (handleImageUpload (Some other_cover) (initial ''other key''))"

section \<open>Helper facts\<close>

lemmas setters = setTitle_def setDescription_def setPlatform_def setGeneratedImage_def
  setLoading_def setError_def start_attempt_def reset_def

subsection \<open>Contiguous sublists\<close>

lemma sublist_in_append_right: "sublist xs zs \<Longrightarrow> sublist xs (ys @ zs)"
  by (metis append.assoc sublist_def)

subsection \<open>The instruction text around the description\<close>

lemma prompt_frame:
  "\<exists>pre post. \<forall>d. prompt p t d =
     pre @ (if d \<noteq> []
            then ''The ad should convey this message/vibe: '' @ d @ ''.''
            else ''The vibe should be serene, professional, and inspiring, suitable for a high-quality journal or planner.'')
         @ post"
proof -
  define pre where "pre =
     ''Create a stunning, high-quality static advertisement image optimized for ''
       @ name p @ ''. '' @ LF
     @ ''      '' @ LF
     @ ''      Subject:'' @ LF
     @ ''      The centerpiece is the provided book cover for a book titled '' @ DQ
       @ t @ DQ @ ''.'' @ LF
     @ ''      '' @ LF
     @ ''      Context & Vibe:'' @ LF
     @ ''      ''"
  define post where "post =
     LF
     @ ''      '' @ LF
     @ ''      Composition:'' @ LF
     @ ''      - Place the book naturally in a lifestyle setting (e.g., on a minimalist wooden desk with coffee, in a cozy reading nook, or held by a person in a soft-focus background).'' @ LF
     @ ''      - The lighting should be soft, golden-hour, or studio quality.'' @ LF
     @ ''      - Make it look like a premium social media ad for the brand '' @ [CHR 0x27]
       @ ''Innerflue'' @ [CHR 0x27] @ ''.'' @ LF
     @ ''      - Do not add text overlays, just the visual photography.'' @ LF
     @ ''      - Ensure the book cover provided is clearly visible and integrated realistically (lighting, shadows, perspective).''"
  have "prompt p t d =
     pre @ (if d \<noteq> []
            then ''The ad should convey this message/vibe: '' @ d @ ''.''
            else ''The vibe should be serene, professional, and inspiring, suitable for a high-quality journal or planner.'')
         @ post" for d
    unfolding prompt_def pre_def post_def append_assoc by (rule refl)
  then show ?thesis by blast
qed

subsection \<open>The scan of the reply\<close>


lemma scan_parts_none:
  "\<forall>q\<in>set ps. inlineData q = None \<Longrightarrow> scan_parts ps s = (s, False)"
  by (induction ps) simp_all

lemma scan_parts_cases:
  "scan_parts ps s = (s', found) \<Longrightarrow>
     (found \<and> (\<exists>img. s' = setGeneratedImage (Some img) s)) \<or> (\<not> found \<and> s' = s)"
  by (induction ps) (auto split: option.splits)

subsection \<open>The attempt after the checks\<close>

lemma generateAd_valid:
  assumes "imageFile s = Some f" "title s \<noteq> []" "apiKey s \<noteq> []"
  shows "generateAd svc s =
     (case try_block svc f (start_attempt s) of
        (None, s', calls) \<Rightarrow> (setLoading False s', calls)
      | (Some err, s', calls) \<Rightarrow> (setLoading False (setError (catch_message err) s'), calls))"
  using assms by (simp add: generateAd_def)

lemma try_block_reply:
  assumes "readAsDataURL f = Some url"
  shows "try_block (\<lambda>_. Inr r) f s =
     (case extract_image r s of
        (s', foundImage) \<Rightarrow>
          (if foundImage then None
           else Some (Thrown (Some ''No image generated. The model might have returned text instead.'')),
           s',
           [\<lparr>model = ''gemini-2.5-flash-image'',
             contents = [\<lparr>text_p = None,
                          inlineData = Some \<lparr>data = index1 (split_comma url),
                                             mimeType = Some (ftype f)\<rparr>\<rparr>,
                         \<lparr>text_p = Some (prompt (platform s) (title s) (description s)),
                          inlineData = None\<rparr>],
             aspectRatio = ratio (platform s)\<rparr>]))"
  using assms by (simp add: try_block_def fileToGenerativePart_def Let_def split: prod.splits)

lemma catch_message_nonempty: "catch_message err \<noteq> []"
  by (simp add: catch_message_def split: option.splits)

lemma try_block_cases:
  assumes "try_block svc f s = (thr, s', calls)"
  shows "(thr = None \<and> (\<exists>img. s' = setGeneratedImage (Some img) s))
       \<or> (thr \<noteq> None \<and> s' = s)"
proof (cases "fileToGenerativePart f")
  case (Inl err)
  with assms show ?thesis by (auto simp: try_block_def)
next
  case (Inr imagePart)
  let ?req = "\<lparr>model = ''gemini-2.5-flash-image'',
               contents = [imagePart,
                 \<lparr>text_p = Some (prompt (platform s) (title s) (description s)),
                  inlineData = None\<rparr>],
               aspectRatio = ratio (platform s)\<rparr>"
  show ?thesis
  proof (cases "svc ?req")
    case (Inl err)
    with assms Inr show ?thesis by (auto simp: try_block_def)
  next
    case r: (Inr r)
    obtain s2 found where ex: "extract_image r s = (s2, found)"
      by (cases "extract_image r s")
    then have "(found \<and> (\<exists>img. s2 = setGeneratedImage (Some img) s)) \<or> (\<not> found \<and> s2 = s)"
      by (auto simp: extract_image_def split: option.splits dest: scan_parts_cases)
    with assms Inr r ex show ?thesis
      by (auto simp: try_block_def split: if_splits)
  qed
qed

lemma start_attempt_inputs:
  "platform (start_attempt s) = platform s" "title (start_attempt s) = title s"
  "description (start_attempt s) = description s"
  by (simp_all add: setters)

lemma try_block_calls:
  "snd (snd (try_block svc f s)) = [r] \<Longrightarrow>
     map text_p (contents r) = [None, Some (prompt (platform s) (title s) (description s))]"
  by (auto simp: try_block_def fileToGenerativePart_def Let_def
      split: sum.splits option.splits prod.splits if_splits)

lemma generateAd_calls:
  assumes "snd (generateAd svc s) = [r]"
  shows "map text_p (contents r) = [None, Some (prompt (platform s) (title s) (description s))]"
proof -
  from assms obtain f where f: "imageFile s = Some f" and t: "title s \<noteq> []"
    and k: "apiKey s \<noteq> []"
    by (auto simp: generateAd_def split: option.splits if_splits)
  obtain thr s' calls where tb: "try_block svc f (start_attempt s) = (thr, s', calls)"
    by (cases "try_block svc f (start_attempt s)")
  with assms f t k have "calls = [r]"
    by (auto simp: generateAd_valid split: option.splits)
  with tb have "snd (snd (try_block svc f (start_attempt s))) = [r]" by simp
  from try_block_calls [OF this] show ?thesis by (simp add: start_attempt_inputs)
qed

subsection \<open>The download name\<close>

lemma units_9_to_13:
  "(0x0009 \<le> u \<and> u \<le> 0x000D) \<longleftrightarrow> u \<in> {0x0009, 0x000A, 0x000B, 0x000C, 0x000D}"
  for u :: code_unit
  apply (simp add: word_le_nat_alt word_unat_eq_iff)
  apply arith
  done

lemma units_2000_to_200A:
  "(0x2000 \<le> u \<and> u \<le> 0x200A) \<longleftrightarrow>
     u \<in> {0x2000, 0x2001, 0x2002, 0x2003, 0x2004, 0x2005, 0x2006, 0x2007, 0x2008, 0x2009,
           0x200A}"
  for u :: code_unit
  apply (simp add: word_le_nat_alt word_unat_eq_iff)
  apply arith
  done

lemma units_A_to_Z:
  "(0x0041 \<le> u \<and> u \<le> 0x005A) \<longleftrightarrow>
     u \<in> {0x41, 0x42, 0x43, 0x44, 0x45, 0x46, 0x47, 0x48, 0x49, 0x4A, 0x4B, 0x4C, 0x4D,
           0x4E, 0x4F, 0x50, 0x51, 0x52, 0x53, 0x54, 0x55, 0x56, 0x57, 0x58, 0x59, 0x5A}"
  for u :: code_unit
  apply (simp add: word_le_nat_alt word_unat_eq_iff)
  apply arith
  done

lemma is_space_iff: "is_space u \<longleftrightarrow> u \<in> set white_space"
  unfolding is_space_def units_9_to_13 units_2000_to_200A white_space_def by auto

lemma hyphenated_spec_skip:
  "hyphenated_spec True us = hyphenated_spec False (dropWhile is_space us)"
  by (induction us) (simp_all add: is_space_iff)

lemma replace_spaces_spec: "replace_spaces t = hyphenated_spec False t"
  by (induction t rule: replace_spaces.induct)
     (simp_all add: is_space_iff [symmetric] hyphenated_spec_skip js_def)

lemma is_ascii_hyphen: "is_ascii 0x002D"
  by (simp add: is_ascii_def)

lemma hyphenated_spec_ascii:
  "list_all (\<lambda>u. is_ascii u \<or> u \<in> set white_space) t \<Longrightarrow>
     list_all is_ascii (hyphenated_spec prev t)"
  by (induction t arbitrary: prev) (auto simp: js_def is_ascii_hyphen)

lemma ascii_lower_white_space: "ascii_lower u \<in> set white_space \<longleftrightarrow> u \<in> set white_space"
  unfolding ascii_lower_def units_A_to_Z white_space_def by auto

lemma ascii_lower_hyphen: "ascii_lower 0x002D = 0x002D"
  by (simp add: ascii_lower_def)

lemma hyphenated_spec_lower:
  "hyphenated_spec prev (map ascii_lower t) = map ascii_lower (hyphenated_spec prev t)"
  by (induction t arbitrary: prev)
     (simp_all add: ascii_lower_white_space js_def ascii_lower_hyphen)

section \<open>Properties\<close>

text \<open>
  C1. For each of the three platform options, every title and every non-empty
  description, the instruction text built by \<open>generateAd\<close> contains the title, the
  description and the option's display name as contiguous substrings.
\<close>

theorem prompt_contains_inputs:
  assumes "p \<in> set PLATFORMS" and "d \<noteq> []"
  shows "sublist t (prompt p t d) \<and> sublist d (prompt p t d) \<and> sublist (name p) (prompt p t d)"
proof (intro conjI)
  show "sublist t (prompt p t d)"
    unfolding prompt_def
    by (rule sublist_append_rightI | rule sublist_in_append_right)+
  show "sublist d (prompt p t d)"
    unfolding prompt_def if_P [OF assms(2)] append_assoc
    by (rule sublist_append_rightI | rule sublist_in_append_right)+
  show "sublist (name p) (prompt p t d)"
    unfolding prompt_def
    by (rule sublist_append_rightI | rule sublist_in_append_right)+
qed

theorem prompt_contains_inputs_witness:
  "PLATFORMS ! 1 \<in> set PLATFORMS \<and> ''A cozy morning companion'' \<noteq> []
   \<and> sublist ''The Mindfulness Journal''
        (prompt (PLATFORMS ! 1) ''The Mindfulness Journal'' ''A cozy morning companion'')
   \<and> sublist ''A cozy morning companion''
        (prompt (PLATFORMS ! 1) ''The Mindfulness Journal'' ''A cozy morning companion'')
   \<and> sublist (name (PLATFORMS ! 1))
        (prompt (PLATFORMS ! 1) ''The Mindfulness Journal'' ''A cozy morning companion'')"
proof -
  have h1: "PLATFORMS ! 1 \<in> set PLATFORMS" by (simp add: PLATFORMS_def)
  have h2: "''A cozy morning companion'' \<noteq> []" by simp
  from prompt_contains_inputs [OF h1 h2, of "''The Mindfulness Journal''"] h1 h2
  show ?thesis by blast
qed

text \<open>
  C2. For every platform option and every title, the instruction text for the empty
  description contains the fixed default sentence, and it stands where the sentence
  with the description stands otherwise: the text before it and the text after it are
  the same as for a non-empty description.
\<close>

theorem prompt_default_vibe:
  "sublist ''The vibe should be serene, professional, and inspiring, suitable for a high-quality journal or planner.''
     (prompt p t [])
   \<and> (\<exists>pre post.
        prompt p t [] =
          pre @ ''The vibe should be serene, professional, and inspiring, suitable for a high-quality journal or planner.''
              @ post
        \<and> prompt p t (c # cs) =
          pre @ (''The ad should convey this message/vibe: '' @ (c # cs) @ ''.'') @ post)"
proof -
  obtain pre post where fr: "\<And>d. prompt p t d =
     pre @ (if d \<noteq> []
            then ''The ad should convey this message/vibe: '' @ d @ ''.''
            else ''The vibe should be serene, professional, and inspiring, suitable for a high-quality journal or planner.'')
         @ post"
    using prompt_frame [of p t] by blast
  have e: "prompt p t [] =
      pre @ ''The vibe should be serene, professional, and inspiring, suitable for a high-quality journal or planner.''
          @ post"
    using fr [of "[]"] by simp
  have n: "prompt p t (c # cs) =
      pre @ (''The ad should convey this message/vibe: '' @ (c # cs) @ ''.'') @ post"
    using fr [of "c # cs"] by simp
  have "sublist ''The vibe should be serene, professional, and inspiring, suitable for a high-quality journal or planner.''
     (prompt p t [])"
    unfolding e by (rule sublist_appendI)
  with e n show ?thesis by blast
qed

text \<open>
  C3. When no cover has been supplied or the title is empty, \<open>generateAd\<close> reports the
  missing-input message, changes nothing else, and sends no request to the service.
\<close>

theorem generateAd_missing_input:
  assumes "imageFile s = None \<or> title s = []"
  shows "generateAd svc s = (s\<lparr>error := ''Please provide a book cover and a title.''\<rparr>, [])"
  using assms by (auto simp: generateAd_def setError_def split: option.splits)

theorem generateAd_missing_input_witness:
  "imageFile (setTitle ''The Mindfulness Journal'' (initial ''key'')) = None
   \<and> generateAd service_image (setTitle ''The Mindfulness Journal'' (initial ''key'')) =
       ((setTitle ''The Mindfulness Journal'' (initial ''key''))
          \<lparr>error := ''Please provide a book cover and a title.''\<rparr>, [])"
proof -
  have h: "imageFile (setTitle ''The Mindfulness Journal'' (initial ''key'')) = None"
    by (simp add: setTitle_def initial_def)
  from generateAd_missing_input [OF disjI1 [OF h], of service_image] h show ?thesis by blast
qed

text \<open>
  C4. When a cover is present and the title is non-empty but the credential is the
  empty string, \<open>generateAd\<close> reports the missing-credential message, changes nothing
  else, and sends no request to the service.
\<close>

theorem generateAd_missing_key:
  assumes "imageFile s = Some f" and "title s \<noteq> []" and "apiKey s = []"
  shows "generateAd svc s = (s\<lparr>error := ''API Key is missing.''\<rparr>, [])"
  using assms by (simp add: generateAd_def setError_def)

theorem generateAd_missing_key_witness:
  "imageFile (setTitle ''Journal'' (handleImageUpload (Some cover) (initial []))) = Some cover
   \<and> title (setTitle ''Journal'' (handleImageUpload (Some cover) (initial []))) \<noteq> []
   \<and> apiKey (setTitle ''Journal'' (handleImageUpload (Some cover) (initial []))) = []
   \<and> generateAd service_image (setTitle ''Journal'' (handleImageUpload (Some cover) (initial []))) =
       ((setTitle ''Journal'' (handleImageUpload (Some cover) (initial [])))
          \<lparr>error := ''API Key is missing.''\<rparr>, [])"
proof -
  let ?s = "setTitle ''Journal'' (handleImageUpload (Some cover) (initial []))"
  have h1: "imageFile ?s = Some cover"
    by (simp add: setTitle_def handleImageUpload_def initial_def)
  have h2: "title ?s \<noteq> []"
    by (simp add: setTitle_def handleImageUpload_def initial_def)
  have h3: "apiKey ?s = []"
    by (simp add: setTitle_def handleImageUpload_def initial_def)
  from generateAd_missing_key [OF h1 h2 h3, of service_image] h1 h2 h3 show ?thesis by blast
qed



text \<open>
  C6. When the reply has no fragment list, or no fragment of the list has inline data,
  the attempt ends with no image, the message that no image was generated in the error
  field, and the busy flag down.
\<close>

theorem generateAd_no_image:
  assumes "imageFile s = Some f" and "readAsDataURL f = Some url"
    and "title s \<noteq> []" and "apiKey s \<noteq> []"
    and "response_parts r = None
         \<or> (\<exists>ps. response_parts r = Some ps \<and> (\<forall>q\<in>set ps. inlineData q = None))"
  shows "fst (generateAd (\<lambda>_. Inr r) s) =
           s\<lparr>generatedImage := None,
             error := ''No image generated. The model might have returned text instead.'',
             loading := False\<rparr>"
proof -
  have "extract_image r (start_attempt s) = (start_attempt s, False)"
    using assms(5) by (auto simp: extract_image_def scan_parts_none)
  then have "fst (generateAd (\<lambda>_. Inr r) s) =
      setLoading False
        (setError (catch_message (Thrown (Some ''No image generated. The model might have returned text instead.'')))
           (start_attempt s))"
    using assms(1-4) by (simp add: generateAd_valid try_block_reply)
  then show ?thesis by (simp add: setters catch_message_def)
qed

theorem generateAd_no_image_witness:
  "imageFile ready = Some cover
   \<and> readAsDataURL cover = Some ''data:image/png;base64,iVBORw0KGgo=''
   \<and> title ready = ''The Mindfulness Journal'' \<and> apiKey ready = ''key''
   \<and> response_parts reply_text =
       Some [\<lparr>text_p = Some ''I cannot create this image.'', inlineData = None\<rparr>]
   \<and> fst (generateAd (\<lambda>_. Inr reply_text) ready) =
       ready\<lparr>generatedImage := None,
             error := ''No image generated. The model might have returned text instead.'',
             loading := False\<rparr>"
proof -
  have h1: "imageFile ready = Some cover"
    by (simp add: ready_def setTitle_def handleImageUpload_def initial_def)
  have h2: "readAsDataURL cover = Some ''data:image/png;base64,iVBORw0KGgo=''"
    by (simp add: cover_def)
  have t: "title ready = ''The Mindfulness Journal''"
    by (simp add: ready_def setTitle_def)
  have k: "apiKey ready = ''key''"
    by (simp add: ready_def setTitle_def handleImageUpload_def initial_def)
  have h3: "title ready \<noteq> []" by (simp add: t)
  have h4: "apiKey ready \<noteq> []" by (simp add: k)
  have p: "response_parts reply_text =
       Some [\<lparr>text_p = Some ''I cannot create this image.'', inlineData = None\<rparr>]"
    by (simp add: response_parts_def reply_text_def)
  have h5: "response_parts reply_text = None
       \<or> (\<exists>ps. response_parts reply_text = Some ps \<and> (\<forall>q\<in>set ps. inlineData q = None))"
    by (simp add: p)
  from generateAd_no_image [OF h1 h2 h3 h4 h5] h1 h2 t k p
  show ?thesis by blast
qed

text \<open>
  C7, as amended.  Lines 64 to 66 clear the image and the error.  When a cover, a title
  and a credential are present, the attempt ends either with an image and the empty
  error or with no image and a non-empty error, never with both, and with the busy
  flag down.  When one of the three is missing, the attempt is rejected before it
  starts: a non-empty message goes to the error field, nothing else changes (an image
  generated before stays), and no request is sent.
\<close>

theorem generateAd_image_or_error:
  "generatedImage (start_attempt s) = None \<and> error (start_attempt s) = []
   \<and> (imageFile s \<noteq> None \<and> title s \<noteq> [] \<and> apiKey s \<noteq> [] \<longrightarrow>
        ((\<exists>img. fst (generateAd svc s) =
                  s\<lparr>generatedImage := Some img, error := [], loading := False\<rparr>)
         \<or> (\<exists>msg. msg \<noteq> [] \<and> fst (generateAd svc s) =
                  s\<lparr>generatedImage := None, error := msg, loading := False\<rparr>))
        \<and> (generatedImage (fst (generateAd svc s)) = None
             \<longleftrightarrow> error (fst (generateAd svc s)) \<noteq> []))
   \<and> (imageFile s = None \<or> title s = [] \<or> apiKey s = [] \<longrightarrow>
        (\<exists>msg. msg \<noteq> [] \<and> generateAd svc s = (s\<lparr>error := msg\<rparr>, [])))"
proof (intro conjI impI)
  show "generatedImage (start_attempt s) = None" by (simp add: setters)
  show "error (start_attempt s) = []" by (simp add: setters)
next
  assume v: "imageFile s \<noteq> None \<and> title s \<noteq> [] \<and> apiKey s \<noteq> []"
  then obtain f where f: "imageFile s = Some f" by auto
  obtain thr s' calls where tb: "try_block svc f (start_attempt s) = (thr, s', calls)"
    by (cases "try_block svc f (start_attempt s)")
  from try_block_cases [OF tb]
  have alt: "(\<exists>img. fst (generateAd svc s) =
                  s\<lparr>generatedImage := Some img, error := [], loading := False\<rparr>)
         \<or> (\<exists>msg. msg \<noteq> [] \<and> fst (generateAd svc s) =
                  s\<lparr>generatedImage := None, error := msg, loading := False\<rparr>)"
  proof
    assume "thr = None \<and> (\<exists>img. s' = setGeneratedImage (Some img) (start_attempt s))"
    then obtain img where "thr = None" "s' = setGeneratedImage (Some img) (start_attempt s)"
      by auto
    with v f tb have "fst (generateAd svc s) =
        s\<lparr>generatedImage := Some img, error := [], loading := False\<rparr>"
      by (simp add: generateAd_valid setters)
    then show ?thesis by blast
  next
    assume "thr \<noteq> None \<and> s' = start_attempt s"
    then obtain err where "thr = Some err" "s' = start_attempt s" by auto
    with v f tb have "fst (generateAd svc s) =
        s\<lparr>generatedImage := None, error := catch_message err, loading := False\<rparr>"
      by (simp add: generateAd_valid setters)
    with catch_message_nonempty [of err] show ?thesis by blast
  qed
  then show "(\<exists>img. fst (generateAd svc s) =
                  s\<lparr>generatedImage := Some img, error := [], loading := False\<rparr>)
         \<or> (\<exists>msg. msg \<noteq> [] \<and> fst (generateAd svc s) =
                  s\<lparr>generatedImage := None, error := msg, loading := False\<rparr>)" .
  from alt show "generatedImage (fst (generateAd svc s)) = None
             \<longleftrightarrow> error (fst (generateAd svc s)) \<noteq> []"
    by auto
next
  assume "imageFile s = None \<or> title s = [] \<or> apiKey s = []"
  then show "\<exists>msg. msg \<noteq> [] \<and> generateAd svc s = (s\<lparr>error := msg\<rparr>, [])"
    by (auto simp: generateAd_def setError_def split: option.splits)
qed

theorem generateAd_image_or_error_witness:
  "imageFile ready = Some cover \<and> title ready = ''The Mindfulness Journal''
   \<and> apiKey ready = ''key''
   \<and> (generatedImage (fst (generateAd service_down ready)) = None
        \<longleftrightarrow> error (fst (generateAd service_down ready)) \<noteq> [])
   \<and> title retitled = []
   \<and> (\<exists>msg. msg \<noteq> [] \<and> generateAd service_down retitled = (retitled\<lparr>error := msg\<rparr>, []))"
proof -
  have f: "imageFile ready = Some cover"
    by (simp add: ready_def setTitle_def handleImageUpload_def initial_def)
  have t: "title ready = ''The Mindfulness Journal''"
    by (simp add: ready_def setTitle_def)
  have k: "apiKey ready = ''key''"
    by (simp add: ready_def setTitle_def handleImageUpload_def initial_def)
  have v: "imageFile ready \<noteq> None \<and> title ready \<noteq> [] \<and> apiKey ready \<noteq> []"
    by (simp add: f t k)
  have e: "title retitled = []"
    by (simp add: retitled_def setTitle_def)
  then have r: "imageFile retitled = None \<or> title retitled = [] \<or> apiKey retitled = []"
    by simp
  from generateAd_image_or_error [of ready service_down] v
    generateAd_image_or_error [of retitled service_down] r f t k e
  show ?thesis by blast
qed

text \<open>
  C7 as it is written fails on a rejected attempt.  In the run \<open>retitled\<close> an
  advertisement has been generated and the title emptied; the next click on Generate
  is rejected by the first check, and the state then holds the image and the message.
\<close>

theorem generateAd_rejected_keeps_image:
  "generatedImage (fst (generateAd service_image retitled)) = Some ''data:image/png;base64,QUJD''
   \<and> error (fst (generateAd service_image retitled)) = ''Please provide a book cover and a title.''"
  by code_simp

text \<open>
  C8. For every title, a string of any UTF-16 code units, the name offered for the
  download is the title with white space replaced by hyphens (one hyphen for each run
  of white space), lower-cased by the runtime's \<open>toLowerCase\<close>, after the fixed prefix
  \<open>innerflue-ad-\<close> and before the extension \<open>.png\<close>, in which it ends.  For a title of
  ASCII and white space code units the name is spelt out: the letters A to Z are
  replaced by a to z, and it makes no difference whether the title is lower-cased
  before or after the hyphens are put in.
\<close>

theorem download_name:
  assumes "\<forall>s. list_all is_ascii s \<longrightarrow> toLowerCase s = map ascii_lower s"
  shows "download toLowerCase t =
           js ''innerflue-ad-'' @ toLowerCase (hyphenated_spec False t) @ js ''.png''
       \<and> suffix (js ''.png'') (download toLowerCase t)
       \<and> (list_all (\<lambda>u. is_ascii u \<or> u \<in> set white_space) t \<longrightarrow>
            download toLowerCase t =
              js ''innerflue-ad-'' @ hyphenated_spec False (map ascii_lower t) @ js ''.png'')"
proof (intro conjI impI)
  show eq: "download toLowerCase t =
      js ''innerflue-ad-'' @ toLowerCase (hyphenated_spec False t) @ js ''.png''"
    by (simp add: download_def replace_spaces_spec)
  have "download toLowerCase t =
      (js ''innerflue-ad-'' @ toLowerCase (hyphenated_spec False t)) @ js ''.png''"
    by (simp add: eq)
  then show "suffix (js ''.png'') (download toLowerCase t)"
    by (simp only: suffix_def) blast
next
  assume "list_all (\<lambda>u. is_ascii u \<or> u \<in> set white_space) t"
  then have "list_all is_ascii (hyphenated_spec False t)"
    by (rule hyphenated_spec_ascii)
  with assms
  have "toLowerCase (hyphenated_spec False t) = map ascii_lower (hyphenated_spec False t)"
    by blast
  then show "download toLowerCase t =
      js ''innerflue-ad-'' @ hyphenated_spec False (map ascii_lower t) @ js ''.png''"
    by (simp add: download_def replace_spaces_spec hyphenated_spec_lower)
qed

text \<open>
  Two titles, under a lower-casing that is the ASCII one on every string: the
  placeholder title of the form with a doubled blank, and a title with an ideographic
  space, a no-break space, a byte order mark and a tab.
\<close>

theorem download_name_witness:
  "download (map ascii_lower) (js ''The  Mindfulness Journal'') =
     js ''innerflue-ad-the-mindfulness-journal.png''
   \<and> download (map ascii_lower) [0x0041, 0x3000, 0x00A0, 0x0042, 0xFEFF, 0x0009, 0x0063] =
     js ''innerflue-ad-a-b-c.png''"
proof -
  have l: "\<forall>s. list_all is_ascii s \<longrightarrow> map ascii_lower s = map ascii_lower s"
    by simp
  have a1: "list_all (\<lambda>u. is_ascii u \<or> u \<in> set white_space) (js ''The  Mindfulness Journal'')"
    by (simp add: js_def is_ascii_def)
  have a2: "list_all (\<lambda>u. is_ascii u \<or> u \<in> set white_space)
      [0x0041, 0x3000, 0x00A0, 0x0042, 0xFEFF, 0x0009, 0x0063]"
    by (simp add: is_ascii_def white_space_def)
  have e1: "js ''innerflue-ad-''
        @ hyphenated_spec False (map ascii_lower (js ''The  Mindfulness Journal''))
        @ js ''.png'' = js ''innerflue-ad-the-mindfulness-journal.png''"
    by (simp add: js_def ascii_lower_def white_space_def)
  have e2: "js ''innerflue-ad-''
        @ hyphenated_spec False
            (map ascii_lower [0x0041, 0x3000, 0x00A0, 0x0042, 0xFEFF, 0x0009, 0x0063])
        @ js ''.png'' = js ''innerflue-ad-a-b-c.png''"
    by (simp add: js_def ascii_lower_def white_space_def)
  have d1: "download (map ascii_lower) (js ''The  Mindfulness Journal'') =
      js ''innerflue-ad-''
        @ hyphenated_spec False (map ascii_lower (js ''The  Mindfulness Journal''))
        @ js ''.png''"
    using download_name [OF l, of "js ''The  Mindfulness Journal''"] a1 by blast
  have d2: "download (map ascii_lower) [0x0041, 0x3000, 0x00A0, 0x0042, 0xFEFF, 0x0009, 0x0063] =
      js ''innerflue-ad-''
        @ hyphenated_spec False
            (map ascii_lower [0x0041, 0x3000, 0x00A0, 0x0042, 0xFEFF, 0x0009, 0x0063])
        @ js ''.png''"
    using download_name [OF l, of "[0x0041, 0x3000, 0x00A0, 0x0042, 0xFEFF, 0x0009, 0x0063]"] a2
    by blast
  from d1 d2 show ?thesis unfolding e1 e2 by (rule conjI)
qed

text \<open>
  C9. The instruction text sent to the service is a function of the platform option,
  the title and the description alone: two attempts that reach the service with the
  same three values send the same text, whatever the cover, the credential, the rest of
  the state and the behaviour of the service are, and that text is \<open>prompt\<close> of the
  three values.
\<close>

theorem generateAd_prompt_deterministic:
  assumes "platform s1 = platform s2" and "title s1 = title s2"
    and "description s1 = description s2"
    and "snd (generateAd svc1 s1) = [r1]" and "snd (generateAd svc2 s2) = [r2]"
  shows "map text_p (contents r1) = map text_p (contents r2)
       \<and> map text_p (contents r1) =
           [None, Some (prompt (platform s1) (title s1) (description s1))]"
  using assms(1-3) generateAd_calls [OF assms(4)] generateAd_calls [OF assms(5)] by simp

theorem generateAd_prompt_deterministic_witness:
  "platform ready = platform other_ready \<and> title ready = title other_ready
   \<and> description ready = description other_ready
   \<and> snd (generateAd service_image ready) = [hd (snd (generateAd service_image ready))]
   \<and> snd (generateAd service_down other_ready) = [hd (snd (generateAd service_down other_ready))]
   \<and> map text_p (contents (hd (snd (generateAd service_image ready)))) =
       map text_p (contents (hd (snd (generateAd service_down other_ready))))"
proof -
  have h1: "platform ready = platform other_ready"
    by (simp add: ready_def other_ready_def setTitle_def handleImageUpload_def initial_def)
  have h2: "title ready = title other_ready"
    by (simp add: ready_def other_ready_def setTitle_def)
  have h3: "description ready = description other_ready"
    by (simp add: ready_def other_ready_def setTitle_def handleImageUpload_def initial_def)
  have h4: "snd (generateAd service_image ready) = [hd (snd (generateAd service_image ready))]"
    by code_simp
  have h5: "snd (generateAd service_down other_ready) =
      [hd (snd (generateAd service_down other_ready))]"
    by code_simp
  from generateAd_prompt_deterministic [OF h1 h2 h3 h4 h5] h1 h2 h3 h4 h5
  show ?thesis by blast
qed

text \<open>
  C10. The checks are ordered: when the input is incomplete (no cover or an empty
  title) and the credential is missing as well, the message reported is the one of the
  missing input, not the one of the missing credential.
\<close>

theorem generateAd_checks_ordered:
  assumes "imageFile s = None \<or> title s = []" and "apiKey s = []"
  shows "error (fst (generateAd svc s)) = ''Please provide a book cover and a title.''
       \<and> error (fst (generateAd svc s)) \<noteq> ''API Key is missing.''"
  using assms(1) by (auto simp: generateAd_def setError_def split: option.splits)

theorem generateAd_checks_ordered_witness:
  "imageFile (initial []) = None \<and> apiKey (initial []) = []
   \<and> error (fst (generateAd service_image (initial []))) =
       ''Please provide a book cover and a title.''"
proof -
  have h1: "imageFile (initial []) = None" by (simp add: initial_def)
  have h2: "apiKey (initial []) = []" by (simp add: initial_def)
  from generateAd_checks_ordered [OF disjI1 [OF h1] h2, of service_image] h1 h2
  show ?thesis by blast
qed

end
